theory Spec2Isabelle
  imports Complex_Main "HOL-Library.Sublist" "HOL-Library.Log_Nat"
    "HOL-Library.List_Lexorder" "HOL-Library.Char_ord"
begin

section \<open>Data model of the feedback page (src/pages/Index.tsx)\<close>

text \<open>
  The page is one React component whose state lives in a dozen \<open>useState\<close> cells.
  The embedding keeps them in one record and turns every handler into a function from
  state to state.

  Strings are \<open>string\<close>: a character stands for one code unit of the Latin-1 range, which
  covers everything the roster contains. A JavaScript \<open>number\<close> that only ever holds an
  integer (ids, ratings, clock readings in milliseconds) is an \<open>int\<close>; any other
  \<open>number\<close> is the rational value of its binary64 representation. The \<open>timestamp\<close>
  of a feedback is written by \<open>new Date().toISOString()\<close> and read back by
  \<open>new Date(timestamp)\<close>; the two are inverse on every valid time value, so the field
  holds the time value in milliseconds.
\<close>

record Teacher =
  t_id :: int
  t_name :: string
  t_department :: string
  t_subject :: string

record Feedback =
  f_id :: int
  f_anonymousId :: string
  f_comment :: string
  f_rating :: int
  f_timestamp :: int

record state =
  teachers :: "Teacher list"
  currentView :: string
  selectedTeacher :: "Teacher option"
  anonymousId :: string
  feedbackData :: "int \<rightharpoonup> Feedback list"
  filterDepartment :: string
  sortBy :: string
  searchQuery :: string
  showSearch :: bool
  activeStatsCard :: "string option"
  feedbackText :: string
  feedbackRating :: int

text \<open>Lines 28-35: the seeded roster.\<close>

definition sampleTeachers :: "Teacher list" where
  "sampleTeachers =
    [\<lparr>t_id = 1, t_name = ''Dr. Rajesh Kumar'', t_department = ''Computer Science'',
       t_subject = ''Data Structures''\<rparr>,
     \<lparr>t_id = 2, t_name = ''Prof. Priya Sharma'', t_department = ''Mathematics'',
       t_subject = ''Linear Algebra''\<rparr>,
     \<lparr>t_id = 3, t_name = ''Dr. Arjun Menon'', t_department = ''Physics'',
       t_subject = ''Quantum Mechanics''\<rparr>,
     \<lparr>t_id = 4, t_name = ''Prof. Kavitha Nair'', t_department = ''Chemistry'',
       t_subject = ''Organic Chemistry''\<rparr>,
     \<lparr>t_id = 5, t_name = ''Dr. Suresh Babu'', t_department = ''Computer Science'',
       t_subject = ''Machine Learning''\<rparr>,
     \<lparr>t_id = 6, t_name = ''Prof. Meera Das'', t_department = ''English'',
       t_subject = ''Technical Writing''\<rparr>]"

text \<open>Lines 38-50: the initial value of every state cell.\<close>

definition initialState :: state where
  "initialState =
    \<lparr>teachers = sampleTeachers, currentView = ''home'', selectedTeacher = None,
     anonymousId = [], feedbackData = Map.empty, filterDepartment = ''all'',
     sortBy = ''name'', searchQuery = [], showSearch = False, activeStatsCard = None,
     feedbackText = [], feedbackRating = 0\<rparr>"

section \<open>String and number primitives of the platform\<close>

subsection \<open>Strings\<close>

text \<open>
  \<open>String.prototype.trim\<close> removes white space and line terminators from both ends.
  Within the Latin-1 range these are TAB, LF, VT, FF, CR, SPACE and NBSP.
\<close>

definition isWhiteSpace :: "char \<Rightarrow> bool" where
  "isWhiteSpace c = ((of_char c :: nat) \<in> {9, 10, 11, 12, 13, 32, 160})"

definition trim :: "string \<Rightarrow> string" where
  "trim s = rev (dropWhile isWhiteSpace (rev (dropWhile isWhiteSpace s)))"

text \<open>
  \<open>String.prototype.toLowerCase\<close> on Latin-1: the letters A-Z and the accented capitals
  U+00C0-U+00DE (without the multiplication sign U+00D7) move up by 32.
\<close>

definition toLowerCaseChar :: "char \<Rightarrow> char" where
  "toLowerCaseChar c =
    (let n = (of_char c :: nat)
     in if (65 \<le> n \<and> n \<le> 90) \<or> (192 \<le> n \<and> n \<le> 222 \<and> n \<noteq> 215)
        then char_of (n + 32) else c)"

definition toLowerCase :: "string \<Rightarrow> string" where
  "toLowerCase s = map toLowerCaseChar s"

text \<open>\<open>String.prototype.includes\<close>: the needle occurs at some position of the text.\<close>

fun includes_str :: "string \<Rightarrow> string \<Rightarrow> bool" where
  "includes_str [] needle = (needle = [])"
| "includes_str (c # cs) needle = (prefix needle (c # cs) \<or> includes_str cs needle)"

text \<open>
  The decimal digits of a non-negative integer, as number-to-string conversion writes them
  (below \<open>10^21\<close>, where the conversion switches to exponent notation).
\<close>

definition digitChar :: "nat \<Rightarrow> char" where
  "digitChar d = char_of (48 + d)"

fun showNat :: "nat \<Rightarrow> string" where
  "showNat n = (if n < 10 then [digitChar n] else showNat (n div 10) @ [digitChar (n mod 10)])"

declare showNat.simps [simp del]

definition showInt :: "int \<Rightarrow> string" where
  "showInt i = (if i < 0 then CHR ''-'' # showNat (nat (- i)) else showNat (nat i))"

subsection \<open>Binary64 arithmetic\<close>

text \<open>
  \<open>a / b\<close> on two numbers that hold integers is the binary64 nearest to the quotient, ties
  to the even significand. \<open>binade a b\<close> is the exponent \<open>e\<close> with
  \<open>2^e \<le> a / b < 2^(e + 1)\<close>; the significand is the quotient scaled into
  \<open>[2^52, 2^53]\<close> and rounded. The model covers the normal range (no overflow, no
  subnormal results), which every quotient formed on this page lies in, and a non-zero
  divisor, which every call site guarantees.
\<close>

definition binade :: "int \<Rightarrow> int \<Rightarrow> int" where
  "binade a b =
    (let e0 = bitlen a - bitlen b
     in if b * 2 ^ nat e0 \<le> a * 2 ^ nat (- e0) then e0 else e0 - 1)"

definition roundHalfEven :: "int \<Rightarrow> int \<Rightarrow> int" where
  "roundHalfEven num den =
    (let d = num div den; r = num mod den
     in if 2 * r < den then d
        else if den < 2 * r then d + 1
        else if even d then d else d + 1)"

definition double_of_quot :: "int \<Rightarrow> int \<Rightarrow> rat" where
  "double_of_quot p q =
    (if p = 0 \<or> q = 0 then 0
     else
       let a = \<bar>p\<bar>; b = \<bar>q\<bar>;
           e = binade a b;
           m = roundHalfEven (a * 2 ^ nat (52 - e)) (b * 2 ^ nat (e - 52))
       in of_int (sgn p * sgn q * m) * 2 powi (e - 52))"

text \<open>
  \<open>Number.prototype.toFixed(1)\<close>: the integer \<open>n\<close> for which \<open>n / 10\<close> is nearest to the
  magnitude of the number, the larger one on a tie, written with one digit after the point
  and a minus sign for a negative number (below \<open>10^21\<close> in magnitude).
\<close>

definition tenths :: "rat \<Rightarrow> nat" where
  "tenths x = nat \<lfloor>10 * \<bar>x\<bar> + 1 / 2\<rfloor>"

definition fixed1 :: "nat \<Rightarrow> string" where
  "fixed1 n = showNat (n div 10) @ ''.'' @ showNat (n mod 10)"

definition toFixed1 :: "rat \<Rightarrow> string" where
  "toFixed1 x = (if x < 0 then ''-'' else []) @ fixed1 (tenths x)"

text \<open>
  \<open>Number(text)\<close> on a plain decimal literal: an optional minus sign, digits, and
  optionally a point followed by digits. The result is the binary64 nearest to the decimal
  value. Any other text is outside this model and gives \<open>None\<close>, which stands for NaN.
\<close>

definition isDigit :: "char \<Rightarrow> bool" where
  "isDigit c = (48 \<le> (of_char c :: nat) \<and> (of_char c :: nat) \<le> 57)"

definition digitsValue :: "string \<Rightarrow> nat" where
  "digitsValue ds = foldl (\<lambda>acc c. 10 * acc + ((of_char c :: nat) - 48)) 0 ds"

definition parseDecimal :: "string \<Rightarrow> rat option" where
  "parseDecimal s =
    (let whole = takeWhile (\<lambda>c. c \<noteq> CHR ''.'') s;
         rest = dropWhile (\<lambda>c. c \<noteq> CHR ''.'') s;
         frac = drop 1 rest
     in if whole \<noteq> [] \<and> list_all isDigit whole \<and> list_all isDigit frac
           \<and> (rest = [] \<or> frac \<noteq> [])
        then Some (double_of_quot (int (digitsValue (whole @ frac))) (10 ^ length frac))
        else None)"

definition Number_of :: "string \<Rightarrow> rat option" where
  "Number_of s =
    (case s of
       [] \<Rightarrow> None
     | c # cs \<Rightarrow> if c = CHR ''-'' then map_option uminus (parseDecimal cs) else parseDecimal s)"

section \<open>Derived values (lines 70-81 and 119-162)\<close>

text \<open>The feedbacks stored under a teacher id: \<open>feedbackData[teacherId] || []\<close>.\<close>

definition feedbacksOf :: "(int \<rightharpoonup> Feedback list) \<Rightarrow> int \<Rightarrow> Feedback list" where
  "feedbacksOf fd teacherId = (case fd teacherId of None \<Rightarrow> [] | Some fbs \<Rightarrow> fbs)"

text \<open>
  Lines 71-76. The \<open>reduce\<close> adds integers; the sum is exact as long as it stays below
  \<open>2^53\<close>, which the theorems about the returned text assume. The division is a binary64
  division.
\<close>

definition calculateAverageRating :: "(int \<rightharpoonup> Feedback list) \<Rightarrow> int \<Rightarrow> string" where
  "calculateAverageRating fd teacherId =
    (let teacherFeedbacks = feedbacksOf fd teacherId
     in if length teacherFeedbacks = 0 then ''0.0''
        else
          let sum = foldl (\<lambda>acc fb. acc + f_rating fb) 0 teacherFeedbacks
          in toFixed1 (double_of_quot sum (int (length teacherFeedbacks))))"

text \<open>Lines 79-81.\<close>

definition getFeedbackCount :: "(int \<rightharpoonup> Feedback list) \<Rightarrow> int \<Rightarrow> int" where
  "getFeedbackCount fd teacherId = int (length (feedbacksOf fd teacherId))"

text \<open>
  \<open>Array.prototype.sort\<close> with a comparator. The sort is stable, and for a consistent
  comparator its result is the one list that is ordered and keeps equal elements in their
  input order; insertion from the right computes that list. An element goes before the
  first element it does not compare greater than.
\<close>

fun js_insert :: "('a \<Rightarrow> 'a \<Rightarrow> rat) \<Rightarrow> 'a \<Rightarrow> 'a list \<Rightarrow> 'a list" where
  "js_insert cmp x [] = [x]"
| "js_insert cmp x (y # ys) = (if cmp x y \<le> 0 then x # y # ys else y # js_insert cmp x ys)"

definition js_sort :: "('a \<Rightarrow> 'a \<Rightarrow> rat) \<Rightarrow> 'a list \<Rightarrow> 'a list" where
  "js_sort cmp xs = foldr (js_insert cmp) xs []"

text \<open>
  Lines 140-149, the comparator. \<open>localeCompare\<close> belongs to the platform and depends on
  the locale, so it is a parameter. A difference of two binary64 numbers has the sign of the
  exact difference, and the sort reads only the sign; a NaN result counts as zero.
\<close>

definition compareTeachers ::
  "(string \<Rightarrow> string \<Rightarrow> int) \<Rightarrow> (int \<rightharpoonup> Feedback list) \<Rightarrow> string \<Rightarrow> Teacher \<Rightarrow> Teacher \<Rightarrow> rat"
where
  "compareTeachers localeCompare fd sortKey a b =
    (if sortKey = ''rating'' then
       (case (Number_of (calculateAverageRating fd (t_id b)),
              Number_of (calculateAverageRating fd (t_id a))) of
          (Some rb, Some ra) \<Rightarrow> rb - ra
        | _ \<Rightarrow> 0)
     else if sortKey = ''feedbacks'' then
       of_int (getFeedbackCount fd (t_id b) - getFeedbackCount fd (t_id a))
     else of_int (localeCompare (t_name a) (t_name b)))"

text \<open>
  Lines 125-150. \<open>filtered\<close> starts as the \<open>teachers\<close> array itself and becomes a new
  array only when a filter runs; \<open>sort\<close> works in place. The result is therefore a pair:
  the list the memo returns, and the contents of the \<open>teachers\<close> array afterwards, which
  is the sorted list when no filter ran.
\<close>

definition matchesSearch :: "string \<Rightarrow> Teacher \<Rightarrow> bool" where
  "matchesSearch query teacher =
    (includes_str (toLowerCase (t_name teacher)) (toLowerCase query)
     \<or> includes_str (toLowerCase (t_department teacher)) (toLowerCase query)
     \<or> includes_str (toLowerCase (t_subject teacher)) (toLowerCase query))"

definition filteredAndSortedTeachers ::
  "(string \<Rightarrow> string \<Rightarrow> int) \<Rightarrow> state \<Rightarrow> Teacher list \<times> Teacher list"
where
  "filteredAndSortedTeachers localeCompare st =
    (let byDepartment =
           (if filterDepartment st \<noteq> ''all''
            then filter (\<lambda>teacher. t_department teacher = filterDepartment st) (teachers st)
            else teachers st);
         filtered =
           (if trim (searchQuery st) \<noteq> []
            then filter (matchesSearch (searchQuery st)) byDepartment
            else byDepartment);
         copied = (filterDepartment st \<noteq> ''all'' \<or> trim (searchQuery st) \<noteq> []);
         sorted = js_sort (compareTeachers localeCompare (feedbackData st) (sortBy st)) filtered
     in (sorted, if copied then teachers st else sorted))"

text \<open>
  Lines 153-162. \<open>now\<close> is the clock reading at the call, \<open>timestamp\<close> the time value of
  the feedback, both in milliseconds. Their difference is taken as exact, which it is as
  long as it stays below \<open>2^53\<close>; the three divisions are binary64 divisions.
\<close>

definition timeAgo :: "int \<Rightarrow> int \<Rightarrow> string" where
  "timeAgo now timestamp =
    (let diffInMinutes = \<lfloor>double_of_quot (now - timestamp) (1000 * 60)\<rfloor>
     in if diffInMinutes < 1 then ''Just now''
        else if diffInMinutes < 60 then showInt diffInMinutes @ ''m ago''
        else if diffInMinutes < 1440
          then showInt \<lfloor>double_of_quot diffInMinutes 60\<rfloor> @ ''h ago''
        else showInt \<lfloor>double_of_quot diffInMinutes 1440\<rfloor> @ ''d ago'')"

section \<open>Handlers\<close>

text \<open>
  Lines 84-117. \<open>submitFeedback\<close> reads the clock twice: \<open>Date.now()\<close> for the id and
  \<open>new Date()\<close> for the timestamp. Both readings are arguments. The result pairs the text
  passed to \<open>alert\<close>, if any, with the state after the call.
\<close>

definition submitFeedback :: "int \<Rightarrow> int \<Rightarrow> state \<Rightarrow> string option \<times> state" where
  "submitFeedback dateNow newDate st =
    (case selectedTeacher st of
       None \<Rightarrow> (Some ''Please select a teacher'', st)
     | Some teacher \<Rightarrow>
         if trim (feedbackText st) = [] then (Some ''Please enter your feedback'', st)
         else if feedbackRating st = 0 then (Some ''Please provide a rating'', st)
         else
           let newFeedback =
                 \<lparr>f_id = dateNow, f_anonymousId = anonymousId st,
                  f_comment = trim (feedbackText st), f_rating = feedbackRating st,
                  f_timestamp = newDate\<rparr>
           in (None,
               st\<lparr>feedbackData :=
                     (feedbackData st)(t_id teacher \<mapsto>
                        feedbacksOf (feedbackData st) (t_id teacher) @ [newFeedback]),
                   feedbackText := [],
                   feedbackRating := 0,
                   currentView := ''success''\<rparr>))"

text \<open>Lines 170-183.\<close>

definition handleStatsCardClick :: "string \<Rightarrow> state \<Rightarrow> state" where
  "handleStatsCardClick cardType st =
    (let st1 = st\<lparr>activeStatsCard := Some cardType\<rparr>
     in if cardType = ''faculty''
        then st1\<lparr>showSearch := True, filterDepartment := ''all'', searchQuery := []\<rparr>
        else if cardType = ''departments'' then st1\<lparr>showSearch := False\<rparr>
        else if cardType = ''reviews'' then st1\<lparr>showSearch := False, sortBy := ''feedbacks''\<rparr>
        else st1)"

text \<open>Lines 186-227: the search box and the filter controls.\<close>

definition clearSearch :: "state \<Rightarrow> state" where
  "clearSearch st = st\<lparr>searchQuery := [], showSearch := False, activeStatsCard := None\<rparr>"

definition clearAllFilters :: "state \<Rightarrow> state" where
  "clearAllFilters st =
    st\<lparr>searchQuery := [], filterDepartment := ''all'', sortBy := ''name'',
       activeStatsCard := None, showSearch := False\<rparr>"

definition handleSearchChange :: "string \<Rightarrow> state \<Rightarrow> state" where
  "handleSearchChange v st = st\<lparr>searchQuery := v\<rparr>"

definition handleDepartmentChange :: "string \<Rightarrow> state \<Rightarrow> state" where
  "handleDepartmentChange v st = st\<lparr>filterDepartment := v\<rparr>"

definition handleSortChange :: "string \<Rightarrow> state \<Rightarrow> state" where
  "handleSortChange v st = st\<lparr>sortBy := v\<rparr>"

definition removeSearchFilter :: "state \<Rightarrow> state" where
  "removeSearchFilter st = st\<lparr>searchQuery := []\<rparr>"

definition removeDepartmentFilter :: "state \<Rightarrow> state" where
  "removeDepartmentFilter st = st\<lparr>filterDepartment := ''all''\<rparr>"

definition removeActiveStatsFilter :: "state \<Rightarrow> state" where
  "removeActiveStatsFilter st = st\<lparr>activeStatsCard := None\<rparr>"

text \<open>Lines 56-59: the mount effect, with the random integer in \<open>[1, 1000]\<close> as argument.\<close>

definition initAnonymousId :: "nat \<Rightarrow> state \<Rightarrow> state" where
  "initAnonymousId randomId st = st\<lparr>anonymousId := ''Anonymous '' @ showNat randomId\<rparr>"

text \<open>Lines 758-761: a click on a teacher card.\<close>

definition selectTeacher :: "Teacher \<Rightarrow> state \<Rightarrow> state" where
  "selectTeacher teacher st = st\<lparr>selectedTeacher := Some teacher, currentView := ''feedback''\<rparr>"

text \<open>Lines 827 and 978: "Back to Faculty" and "Submit More Reviews".\<close>

definition backToHome :: "state \<Rightarrow> state" where
  "backToHome st = st\<lparr>currentView := ''home''\<rparr>"

text \<open>Lines 241 and 871: the comment field and the star control of the form.\<close>

definition changeFeedbackText :: "string \<Rightarrow> state \<Rightarrow> state" where
  "changeFeedbackText v st = st\<lparr>feedbackText := v\<rparr>"

definition changeFeedbackRating :: "int \<Rightarrow> state \<Rightarrow> state" where
  "changeFeedbackRating star st = st\<lparr>feedbackRating := star\<rparr>"

section \<open>The page as a transition system\<close>

text \<open>
  An event is one user interaction (or the mount effect) together with what the platform
  supplies to its handler: the typed text, the clicked star, the clock readings.
\<close>

datatype event =
    MountEffect nat
  | StatsCardClick string
  | ClearSearch
  | ClearAllFilters
  | SearchChange string
  | DepartmentChange string
  | SortChange string
  | RemoveSearchFilter
  | RemoveDepartmentFilter
  | RemoveActiveStatsFilter
  | TeacherCardClick Teacher
  | BackToFaculty
  | FeedbackTextChange string
  | StarClick int
  | SubmitReview int int
  | SubmitMoreReviews

fun handle :: "event \<Rightarrow> state \<Rightarrow> state" where
  "handle (MountEffect randomId) st = initAnonymousId randomId st"
| "handle (StatsCardClick cardType) st = handleStatsCardClick cardType st"
| "handle ClearSearch st = clearSearch st"
| "handle ClearAllFilters st = clearAllFilters st"
| "handle (SearchChange v) st = handleSearchChange v st"
| "handle (DepartmentChange v) st = handleDepartmentChange v st"
| "handle (SortChange v) st = handleSortChange v st"
| "handle RemoveSearchFilter st = removeSearchFilter st"
| "handle RemoveDepartmentFilter st = removeDepartmentFilter st"
| "handle RemoveActiveStatsFilter st = removeActiveStatsFilter st"
| "handle (TeacherCardClick teacher) st = selectTeacher teacher st"
| "handle BackToFaculty st = backToHome st"
| "handle (FeedbackTextChange v) st = changeFeedbackText v st"
| "handle (StarClick star) st = changeFeedbackRating star st"
| "handle (SubmitReview dateNow newDate) st = snd (submitFeedback dateNow newDate st)"
| "handle SubmitMoreReviews st = backToHome st"

text \<open>
  Lines 989-998 choose the view: \<open>'feedback'\<close>, \<open>'success'\<close>, and the home view for any
  other value. \<open>offered\<close> says which events the rendered page can deliver: each control
  lives in one view, some are rendered or enabled only under a condition (lines 640, 655,
  701-735, 882), the selects offer fixed options, the star control offers 1 to 10, and the
  teacher cards are those of the filtered list.
\<close>

definition homeView :: "state \<Rightarrow> bool" where
  "homeView st = (currentView st \<noteq> ''feedback'' \<and> currentView st \<noteq> ''success'')"

definition truthy :: "string option \<Rightarrow> bool" where
  "truthy v = (case v of None \<Rightarrow> False | Some s \<Rightarrow> s \<noteq> [])"

fun offered :: "(string \<Rightarrow> string \<Rightarrow> int) \<Rightarrow> state \<Rightarrow> event \<Rightarrow> bool" where
  "offered lc st (MountEffect randomId) = (anonymousId st = [] \<and> 1 \<le> randomId \<and> randomId \<le> 1000)"
| "offered lc st (StatsCardClick cardType) =
     (homeView st \<and> cardType \<in> {''faculty'', ''reviews'', ''departments''})"
| "offered lc st ClearSearch = (homeView st \<and> showSearch st \<and> searchQuery st \<noteq> [])"
| "offered lc st ClearAllFilters =
     (homeView st \<and> (searchQuery st \<noteq> [] \<or> filterDepartment st \<noteq> ''all''
        \<or> truthy (activeStatsCard st)))"
| "offered lc st (SearchChange v) = (homeView st \<and> showSearch st)"
| "offered lc st (DepartmentChange v) =
     (homeView st \<and> (v = ''all'' \<or> v \<in> set (map t_department (teachers st))))"
| "offered lc st (SortChange v) = (homeView st \<and> v \<in> {''name'', ''rating'', ''feedbacks''})"
| "offered lc st RemoveSearchFilter = (homeView st \<and> searchQuery st \<noteq> [])"
| "offered lc st RemoveDepartmentFilter = (homeView st \<and> filterDepartment st \<noteq> ''all'')"
| "offered lc st RemoveActiveStatsFilter = (homeView st \<and> truthy (activeStatsCard st))"
| "offered lc st (TeacherCardClick teacher) =
     (homeView st \<and> teacher \<in> set (fst (filteredAndSortedTeachers lc st)))"
| "offered lc st BackToFaculty = (currentView st = ''feedback'')"
| "offered lc st (FeedbackTextChange v) = (currentView st = ''feedback'')"
| "offered lc st (StarClick star) = (currentView st = ''feedback'' \<and> 1 \<le> star \<and> star \<le> 10)"
| "offered lc st (SubmitReview dateNow newDate) =
     (currentView st = ''feedback'' \<and> \<not> (trim (feedbackText st) = [] \<or> feedbackRating st = 0))"
| "offered lc st SubmitMoreReviews = (currentView st = ''success'')"

text \<open>
  Every state change is followed by a render, and a render evaluates the memo of lines
  125-150, whose in-place sort may reorder the \<open>teachers\<close> array. The memo is recomputed
  when one of its inputs changed; recomputing it on every render gives the same list and
  the same array, because a stable sort leaves an ordered array as it is.
\<close>

definition render :: "(string \<Rightarrow> string \<Rightarrow> int) \<Rightarrow> state \<Rightarrow> state" where
  "render lc st = st\<lparr>teachers := snd (filteredAndSortedTeachers lc st)\<rparr>"

definition dispatch :: "(string \<Rightarrow> string \<Rightarrow> int) \<Rightarrow> event \<Rightarrow> state \<Rightarrow> state" where
  "dispatch lc e st = render lc (handle e st)"

inductive reachable :: "(string \<Rightarrow> string \<Rightarrow> int) \<Rightarrow> state \<Rightarrow> bool"
  for lc :: "string \<Rightarrow> string \<Rightarrow> int"
where
  mounted: "reachable lc (render lc initialState)"
| delivered: "reachable lc st \<Longrightarrow> offered lc st e \<Longrightarrow> reachable lc (dispatch lc e st)"

text \<open>Delivering a list of events, whatever the page offers.\<close>

definition deliver :: "(string \<Rightarrow> string \<Rightarrow> int) \<Rightarrow> event list \<Rightarrow> state \<Rightarrow> state" where
  "deliver lc es st = foldl (\<lambda>s e. dispatch lc e s) st es"

section \<open>Example states\<close>

text \<open>
  A stand-in for \<open>localeCompare\<close> that compares code units. On the six names of the
  roster the order is decided at a capital letter (D or P, then the first letter of the
  given name), where every collation agrees with the order of the code units.
\<close>

fun codeUnitCompare :: "string \<Rightarrow> string \<Rightarrow> int" where
  "codeUnitCompare [] [] = 0"
| "codeUnitCompare [] (y # ys) = - 1"
| "codeUnitCompare (x # xs) [] = 1"
| "codeUnitCompare (x # xs) (y # ys) =
     (if (of_char x :: nat) < of_char y then - 1
      else if (of_char y :: nat) < of_char x then 1
      else codeUnitCompare xs ys)"

text \<open>The form for teacher 1, filled in with a comment and nine stars.\<close>

definition rajesh :: Teacher where
  "rajesh = \<lparr>t_id = 1, t_name = ''Dr. Rajesh Kumar'', t_department = ''Computer Science'',
     t_subject = ''Data Structures''\<rparr>"

definition filledForm :: state where
  "filledForm =
    initialState\<lparr>currentView := ''feedback'', selectedTeacher := Some rajesh,
      anonymousId := ''Anonymous 7'', feedbackText := '' Great class '',
      feedbackRating := 9\<rparr>"

definition earlierFeedback :: Feedback where
  "earlierFeedback =
    \<lparr>f_id = 1000, f_anonymousId = ''Anonymous 7'', f_comment = ''Clear lectures'',
     f_rating = 8, f_timestamp = 1000\<rparr>"

text \<open>The same form after an earlier submission for teacher 1 at clock reading 1000.\<close>

definition secondForm :: state where
  "secondForm = filledForm\<lparr>feedbackData := [1 \<mapsto> [earlierFeedback]]\<rparr>"

text \<open>The form with a comment of three spaces, and the form with a rating of eleven.\<close>

definition blankForm :: state where
  "blankForm = filledForm\<lparr>feedbackText := ''   ''\<rparr>"

definition elevenForm :: state where
  "elevenForm = filledForm\<lparr>feedbackRating := 11\<rparr>"

definition unratedForm :: state where
  "unratedForm = filledForm\<lparr>feedbackRating := 0\<rparr>"

text \<open>The home view with a search text, a department filter and a sort order chosen.\<close>

definition searchingHome :: state where
  "searchingHome =
    initialState\<lparr>filterDepartment := ''Physics'', sortBy := ''rating'',
      searchQuery := ''quantum'', showSearch := True\<rparr>"

text \<open>All feedbacks of a state, over all teachers.\<close>

definition allFeedbacks :: "state \<Rightarrow> Feedback set" where
  "allFeedbacks st = (\<Union>fbs \<in> ran (feedbackData st). set fbs)"

text \<open>The page after mounting and a click on the card of teacher 1.\<close>

definition afterCardClick :: state where
  "afterCardClick =
    dispatch codeUnitCompare (TeacherCardClick rajesh) (render codeUnitCompare initialState)"

text \<open>The ratings a state holds: the one in the form and those of the stored feedbacks.\<close>

definition ratingsInRange :: "state \<Rightarrow> bool" where
  "ratingsInRange st =
    (0 \<le> feedbackRating st \<and> feedbackRating st \<le> 10
     \<and> (\<forall>teacherId. \<forall>fb \<in> set (feedbacksOf (feedbackData st) teacherId).
            1 \<le> f_rating fb \<and> f_rating fb \<le> 10))"


section \<open>The roster pipeline in the words of the specification\<close>

text \<open>
  Only for comparison with \<open>filteredAndSortedTeachers\<close>: the three steps as the
  specification words them. A stable sort by a key is \<open>sort_key\<close>; descending order is
  ascending order of the negated key. The locale-aware order of names is the order of
  their collation keys \<open>ckey\<close>.
\<close>

definition ratingValue :: "(int \<rightharpoonup> Feedback list) \<Rightarrow> int \<Rightarrow> rat" where
  "ratingValue fd teacherId =
    (case Number_of (calculateAverageRating fd teacherId) of Some v \<Rightarrow> v | None \<Rightarrow> 0)"

definition caseInsensitiveSubstring :: "string \<Rightarrow> string \<Rightarrow> bool" where
  "caseInsensitiveSubstring query s = sublist (toLowerCase query) (toLowerCase s)"

definition rosterPipeline_spec :: "(string \<Rightarrow> 'k::linorder) \<Rightarrow> state \<Rightarrow> Teacher list" where
  "rosterPipeline_spec ckey st =
    (let byDepartment =
           (if filterDepartment st = ''all'' then teachers st
            else filter (\<lambda>t. t_department t = filterDepartment st) (teachers st));
         searched =
           (if trim (searchQuery st) = [] then byDepartment
            else filter (\<lambda>t. caseInsensitiveSubstring (searchQuery st) (t_name t)
                           \<or> caseInsensitiveSubstring (searchQuery st) (t_department t)
                           \<or> caseInsensitiveSubstring (searchQuery st) (t_subject t))
                   byDepartment)
     in if sortBy st = ''rating''
          then sort_key (\<lambda>t. - ratingValue (feedbackData st) (t_id t)) searched
        else if sortBy st = ''feedbacks''
          then sort_key (\<lambda>t. - getFeedbackCount (feedbackData st) (t_id t)) searched
        else sort_key (\<lambda>t. ckey (t_name t)) searched)"

text \<open>The page after mounting and a change of the sort order to the feedback count.\<close>

definition afterSortChange :: state where
  "afterSortChange =
    dispatch codeUnitCompare (SortChange ''feedbacks'') (render codeUnitCompare initialState)"

section \<open>Submitting feedback\<close>

lemmas example_defs = filledForm_def secondForm_def blankForm_def elevenForm_def
  unratedForm_def initialState_def rajesh_def earlierFeedback_def

lemma trim_examples:
  "trim '' Great class '' = ''Great class''" "trim ''   '' = []"
  by (simp_all add: trim_def isWhiteSpace_def)

lemma allFeedbacks_secondForm: "allFeedbacks secondForm = {earlierFeedback}"
  by (simp add: allFeedbacks_def secondForm_def)

text \<open>
  Claim C1, as stated, promises an id distinct from the id of every existing feedback. The
  id is the clock reading \<open>Date.now()\<close>. In \<open>secondForm\<close> teacher 1 already has a feedback
  that was created at clock reading 1000; a valid submission whose clock reading is again
  1000 appends a second feedback with the same id.
\<close>

theorem submitFeedback_same_clock_reading:
  "selectedTeacher secondForm = Some rajesh
   \<and> trim (feedbackText secondForm) \<noteq> []
   \<and> 1 \<le> feedbackRating secondForm \<and> feedbackRating secondForm \<le> 10
   \<and> feedbacksOf (feedbackData secondForm) 1 = [earlierFeedback]
   \<and> feedbacksOf (feedbackData (snd (submitFeedback 1000 1000 secondForm))) 1
       = [earlierFeedback,
          \<lparr>f_id = 1000, f_anonymousId = ''Anonymous 7'', f_comment = ''Great class'',
           f_rating = 9, f_timestamp = 1000\<rparr>]
   \<and> f_id (last (feedbacksOf (feedbackData (snd (submitFeedback 1000 1000 secondForm))) 1))
       = f_id earlierFeedback"
  by (simp add: example_defs submitFeedback_def trim_examples feedbacksOf_def)

text \<open>
  Claim C1, amended. In every state with a selected teacher, a comment that is not blank
  after trimming and a rating from 1 to 10, \<open>submitFeedback\<close> raises no alert and appends
  exactly one feedback to the list of the selected teacher, leaving the list of every other
  teacher as it was. The new feedback carries the clock reading \<open>Date.now()\<close> as its id, the
  current timestamp, the anonymous id of the session, the trimmed comment and the given
  rating. Its id differs from the id of every existing feedback whenever that clock reading
  differs from all of them. The comment and the rating of the form are reset to the empty
  text and to 0, and the view becomes \<open>'success'\<close>.
\<close>

theorem submitFeedback_appends:
  assumes "selectedTeacher st = Some teacher"
    and "trim (feedbackText st) \<noteq> []"
    and "1 \<le> feedbackRating st" and "feedbackRating st \<le> 10"
  shows "fst (submitFeedback dateNow newDate st) = None
    \<and> feedbacksOf (feedbackData (snd (submitFeedback dateNow newDate st))) (t_id teacher)
        = feedbacksOf (feedbackData st) (t_id teacher)
          @ [\<lparr>f_id = dateNow, f_anonymousId = anonymousId st,
               f_comment = trim (feedbackText st), f_rating = feedbackRating st,
               f_timestamp = newDate\<rparr>]
    \<and> (\<forall>other. other \<noteq> t_id teacher \<longrightarrow>
          feedbackData (snd (submitFeedback dateNow newDate st)) other = feedbackData st other)
    \<and> ((\<forall>fb \<in> allFeedbacks st. f_id fb \<noteq> dateNow) \<longrightarrow>
          (\<forall>fb \<in> allFeedbacks st.
             f_id fb \<noteq> f_id (last (feedbacksOf
                (feedbackData (snd (submitFeedback dateNow newDate st))) (t_id teacher)))))
    \<and> feedbackText (snd (submitFeedback dateNow newDate st)) = []
    \<and> feedbackRating (snd (submitFeedback dateNow newDate st)) = 0
    \<and> currentView (snd (submitFeedback dateNow newDate st)) = ''success''"
  using assms by (simp add: submitFeedback_def Let_def feedbacksOf_def)

theorem submitFeedback_appends_witness:
  "selectedTeacher secondForm = Some rajesh
   \<and> trim (feedbackText secondForm) \<noteq> []
   \<and> 1 \<le> feedbackRating secondForm \<and> feedbackRating secondForm \<le> 10
   \<and> allFeedbacks secondForm = {earlierFeedback} \<and> f_id earlierFeedback \<noteq> 2000
   \<and> f_id (last (feedbacksOf (feedbackData (snd (submitFeedback 2000 2001 secondForm))) 1))
       \<noteq> f_id earlierFeedback
   \<and> fst (submitFeedback 2000 2001 secondForm) = None
   \<and> feedbacksOf (feedbackData (snd (submitFeedback 2000 2001 secondForm))) 1
       = [earlierFeedback,
          \<lparr>f_id = 2000, f_anonymousId = ''Anonymous 7'', f_comment = ''Great class'',
           f_rating = 9, f_timestamp = 2001\<rparr>]
   \<and> currentView (snd (submitFeedback 2000 2001 secondForm)) = ''success''"
  using submitFeedback_appends [of secondForm rajesh 2000 2001]
  by (simp add: allFeedbacks_secondForm)
    (simp add: example_defs trim_examples feedbacksOf_def)

text \<open>
  Claim C2. When no teacher is selected, or the comment is blank after trimming, or the
  rating is unset (0), \<open>submitFeedback\<close> alerts the message of the first requirement that
  is violated, in the order teacher, comment, rating, and returns the state it was given:
  the feedback mapping, the form and the view are unchanged.
\<close>

theorem submitFeedback_rejects:
  assumes "selectedTeacher st = None \<or> trim (feedbackText st) = [] \<or> feedbackRating st = 0"
  shows "submitFeedback dateNow newDate st =
    (Some (if selectedTeacher st = None then ''Please select a teacher''
           else if trim (feedbackText st) = [] then ''Please enter your feedback''
           else ''Please provide a rating''), st)"
  using assms by (auto simp: submitFeedback_def split: option.splits)

theorem submitFeedback_rejects_witness:
  "(selectedTeacher blankForm = None \<or> trim (feedbackText blankForm) = []
      \<or> feedbackRating blankForm = 0)
   \<and> submitFeedback 2000 2001 blankForm = (Some ''Please enter your feedback'', blankForm)"
  using submitFeedback_rejects [of blankForm 2000 2001]
  by (simp add: example_defs trim_examples)

text \<open>
  Claim C3, as stated, has every rating outside 1 to 10 rejected. The handler compares the
  rating with 0 only: with a teacher selected, a comment entered and a rating of 11 the
  submission goes through and the feedback is stored.
\<close>

theorem submitFeedback_accepts_eleven:
  "selectedTeacher elevenForm = Some rajesh
   \<and> trim (feedbackText elevenForm) \<noteq> []
   \<and> \<not> (1 \<le> feedbackRating elevenForm \<and> feedbackRating elevenForm \<le> 10)
   \<and> fst (submitFeedback 2000 2001 elevenForm) = None
   \<and> feedbacksOf (feedbackData elevenForm) 1 = []
   \<and> feedbacksOf (feedbackData (snd (submitFeedback 2000 2001 elevenForm))) 1
       = [\<lparr>f_id = 2000, f_anonymousId = ''Anonymous 7'', f_comment = ''Great class'',
           f_rating = 11, f_timestamp = 2001\<rparr>]
   \<and> currentView (snd (submitFeedback 2000 2001 elevenForm)) = ''success''"
  by (simp add: example_defs submitFeedback_def trim_examples feedbacksOf_def)

text \<open>
  Claim C3, amended. \<open>submitFeedback\<close> requires the rating to be set: in every state with a
  selected teacher and a comment that is not blank after trimming, a rating of 0 makes the
  submission fail with the message about the rating and leaves the state unchanged, and any
  other rating is accepted without an alert. The range 1 to 10 is kept by the star control,
  which offers no other value.
\<close>

theorem submitFeedback_rating_check:
  assumes "selectedTeacher st \<noteq> None" and "trim (feedbackText st) \<noteq> []"
  shows "(feedbackRating st = 0 \<longrightarrow>
            submitFeedback dateNow newDate st = (Some ''Please provide a rating'', st))
    \<and> (feedbackRating st \<noteq> 0 \<longrightarrow> fst (submitFeedback dateNow newDate st) = None)"
  using assms by (auto simp: submitFeedback_def Let_def split: option.splits)

theorem submitFeedback_rating_check_witness:
  "selectedTeacher unratedForm \<noteq> None \<and> trim (feedbackText unratedForm) \<noteq> []
   \<and> feedbackRating unratedForm = 0
   \<and> submitFeedback 2000 2001 unratedForm = (Some ''Please provide a rating'', unratedForm)"
  using submitFeedback_rating_check [of unratedForm 2000 2001]
  by (simp add: example_defs trim_examples)

text \<open>
  Claim C10. A call of \<open>submitFeedback\<close> that succeeds (raises no alert) keeps the selected
  teacher, which stays set, the anonymous id, the department filter, the sort order, the
  search text, the visibility of the search box, the highlighted stat card and the roster.
\<close>

theorem submitFeedback_frame:
  assumes "fst (submitFeedback dateNow newDate st) = None"
  shows "selectedTeacher (snd (submitFeedback dateNow newDate st)) = selectedTeacher st
    \<and> selectedTeacher (snd (submitFeedback dateNow newDate st)) \<noteq> None
    \<and> anonymousId (snd (submitFeedback dateNow newDate st)) = anonymousId st
    \<and> filterDepartment (snd (submitFeedback dateNow newDate st)) = filterDepartment st
    \<and> sortBy (snd (submitFeedback dateNow newDate st)) = sortBy st
    \<and> searchQuery (snd (submitFeedback dateNow newDate st)) = searchQuery st
    \<and> showSearch (snd (submitFeedback dateNow newDate st)) = showSearch st
    \<and> activeStatsCard (snd (submitFeedback dateNow newDate st)) = activeStatsCard st
    \<and> teachers (snd (submitFeedback dateNow newDate st)) = teachers st"
  using assms by (auto simp: submitFeedback_def Let_def split: option.splits if_splits)

theorem submitFeedback_frame_witness:
  "fst (submitFeedback 2000 2001 filledForm) = None
   \<and> selectedTeacher (snd (submitFeedback 2000 2001 filledForm)) = Some rajesh
   \<and> anonymousId (snd (submitFeedback 2000 2001 filledForm)) = ''Anonymous 7''
   \<and> sortBy (snd (submitFeedback 2000 2001 filledForm)) = ''name''"
proof -
  have ok: "fst (submitFeedback 2000 2001 filledForm) = None"
    by (simp add: example_defs submitFeedback_def trim_examples)
  from submitFeedback_frame [OF ok] ok show ?thesis
    by (simp add: example_defs)
qed

section \<open>Stat cards\<close>

text \<open>
  Claim C9, as stated, lists the effects of a click as the only ones: "departments" closes
  the search box only. Line 171 runs before any branch and records the clicked card as the
  highlighted one. In \<open>searchingHome\<close> no card is highlighted; after a click on
  "departments" the card is, so the state after the click is not the state before it with
  only the search box closed. The same holds for "faculty" and "reviews".
\<close>

theorem handleStatsCardClick_sets_highlight:
  "activeStatsCard searchingHome = None
   \<and> activeStatsCard (handleStatsCardClick ''departments'' searchingHome) = Some ''departments''
   \<and> handleStatsCardClick ''departments'' searchingHome \<noteq> searchingHome\<lparr>showSearch := False\<rparr>
   \<and> activeStatsCard (handleStatsCardClick ''faculty'' searchingHome) = Some ''faculty''
   \<and> handleStatsCardClick ''faculty'' searchingHome
       \<noteq> searchingHome\<lparr>showSearch := True, filterDepartment := ''all'', searchQuery := []\<rparr>
   \<and> activeStatsCard (handleStatsCardClick ''reviews'' searchingHome) = Some ''reviews''
   \<and> handleStatsCardClick ''reviews'' searchingHome
       \<noteq> searchingHome\<lparr>showSearch := False, sortBy := ''feedbacks''\<rparr>"
proof -
  have none: "activeStatsCard searchingHome = None"
    by (simp add: searchingHome_def initialState_def)
  have d: "activeStatsCard (handleStatsCardClick ''departments'' searchingHome) = Some ''departments''"
    and f: "activeStatsCard (handleStatsCardClick ''faculty'' searchingHome) = Some ''faculty''"
    and r: "activeStatsCard (handleStatsCardClick ''reviews'' searchingHome) = Some ''reviews''"
    by (simp_all add: handleStatsCardClick_def)
  have d': "handleStatsCardClick ''departments'' searchingHome \<noteq> searchingHome\<lparr>showSearch := False\<rparr>"
  proof
    assume "handleStatsCardClick ''departments'' searchingHome = searchingHome\<lparr>showSearch := False\<rparr>"
    then have "activeStatsCard (handleStatsCardClick ''departments'' searchingHome)
        = activeStatsCard (searchingHome\<lparr>showSearch := False\<rparr>)" by simp
    with d none show False by simp
  qed
  have f': "handleStatsCardClick ''faculty'' searchingHome
       \<noteq> searchingHome\<lparr>showSearch := True, filterDepartment := ''all'', searchQuery := []\<rparr>"
  proof
    assume "handleStatsCardClick ''faculty'' searchingHome
       = searchingHome\<lparr>showSearch := True, filterDepartment := ''all'', searchQuery := []\<rparr>"
    then have "activeStatsCard (handleStatsCardClick ''faculty'' searchingHome)
        = activeStatsCard (searchingHome\<lparr>showSearch := True, filterDepartment := ''all'',
            searchQuery := []\<rparr>)" by simp
    with f none show False by simp
  qed
  have r': "handleStatsCardClick ''reviews'' searchingHome
       \<noteq> searchingHome\<lparr>showSearch := False, sortBy := ''feedbacks''\<rparr>"
  proof
    assume "handleStatsCardClick ''reviews'' searchingHome
       = searchingHome\<lparr>showSearch := False, sortBy := ''feedbacks''\<rparr>"
    then have "activeStatsCard (handleStatsCardClick ''reviews'' searchingHome)
        = activeStatsCard (searchingHome\<lparr>showSearch := False, sortBy := ''feedbacks''\<rparr>)"
      by simp
    with r none show False by simp
  qed
  from none d d' f f' r r' show ?thesis by blast
qed

text \<open>
  Claim C9, amended. The stat-card handler, in any state, records the clicked card as the
  highlighted one and, besides that, has exactly these effects: "faculty" opens the search
  box, resets the department filter to \<open>'all'\<close> and clears the search text; "departments"
  closes the search box and leaves the department filter, the sort order and the search
  text as they are; "reviews" closes the search box and sets the sort order to
  \<open>'feedbacks'\<close>, leaving the department filter and the search text as they are. Each
  equation gives the whole state after the click.
\<close>

theorem handleStatsCardClick_effects:
  "handleStatsCardClick ''faculty'' st =
     st\<lparr>activeStatsCard := Some ''faculty'', showSearch := True,
        filterDepartment := ''all'', searchQuery := []\<rparr>
   \<and> handleStatsCardClick ''departments'' st =
     st\<lparr>activeStatsCard := Some ''departments'', showSearch := False\<rparr>
   \<and> handleStatsCardClick ''reviews'' st =
     st\<lparr>activeStatsCard := Some ''reviews'', showSearch := False, sortBy := ''feedbacks''\<rparr>"
  by (simp add: handleStatsCardClick_def)

theorem handleStatsCardClick_effects_witness:
  "activeStatsCard (handleStatsCardClick ''faculty'' searchingHome) = Some ''faculty''
   \<and> showSearch (handleStatsCardClick ''faculty'' searchingHome)
   \<and> filterDepartment (handleStatsCardClick ''faculty'' searchingHome) = ''all''
   \<and> searchQuery (handleStatsCardClick ''faculty'' searchingHome) = []
   \<and> sortBy (handleStatsCardClick ''faculty'' searchingHome) = ''rating''
   \<and> activeStatsCard (handleStatsCardClick ''departments'' searchingHome) = Some ''departments''
   \<and> \<not> showSearch (handleStatsCardClick ''departments'' searchingHome)
   \<and> filterDepartment (handleStatsCardClick ''departments'' searchingHome) = ''Physics''
   \<and> sortBy (handleStatsCardClick ''departments'' searchingHome) = ''rating''
   \<and> searchQuery (handleStatsCardClick ''departments'' searchingHome) = ''quantum''
   \<and> activeStatsCard (handleStatsCardClick ''reviews'' searchingHome) = Some ''reviews''
   \<and> \<not> showSearch (handleStatsCardClick ''reviews'' searchingHome)
   \<and> sortBy (handleStatsCardClick ''reviews'' searchingHome) = ''feedbacks''
   \<and> filterDepartment (handleStatsCardClick ''reviews'' searchingHome) = ''Physics''
   \<and> searchQuery (handleStatsCardClick ''reviews'' searchingHome) = ''quantum''"
  using handleStatsCardClick_effects [of searchingHome]
  by (simp add: searchingHome_def initialState_def)

section \<open>Invariants of the transition system\<close>

lemmas handler_defs = initAnonymousId_def handleStatsCardClick_def clearSearch_def
  clearAllFilters_def handleSearchChange_def handleDepartmentChange_def handleSortChange_def
  removeSearchFilter_def removeDepartmentFilter_def removeActiveStatsFilter_def
  selectTeacher_def backToHome_def changeFeedbackText_def changeFeedbackRating_def

lemma render_fields [simp]:
  "feedbackData (render lc st) = feedbackData st"
  "currentView (render lc st) = currentView st"
  "selectedTeacher (render lc st) = selectedTeacher st"
  "feedbackRating (render lc st) = feedbackRating st"
  by (simp_all add: render_def)

subsection \<open>The feedback mapping\<close>

lemma submitFeedback_mapping:
  "feedbackData (snd (submitFeedback dateNow newDate st)) = feedbackData st
   \<or> (\<exists>teacherId fb. feedbackData (snd (submitFeedback dateNow newDate st))
        = (feedbackData st)(teacherId \<mapsto> feedbacksOf (feedbackData st) teacherId @ [fb]))"
  by (auto simp: submitFeedback_def Let_def split: option.splits)

lemma handle_mapping:
  "feedbackData (handle e st) = feedbackData st
   \<or> (\<exists>teacherId fb. feedbackData (handle e st)
        = (feedbackData st)(teacherId \<mapsto> feedbacksOf (feedbackData st) teacherId @ [fb]))"
proof (cases e)
  case (SubmitReview dateNow newDate)
  then show ?thesis using submitFeedback_mapping [of dateNow newDate st] by simp
qed (simp_all add: handler_defs Let_def)

lemma dispatch_mapping:
  "feedbackData (dispatch lc e st) = feedbackData st
   \<or> (\<exists>teacherId fb. feedbackData (dispatch lc e st)
        = (feedbackData st)(teacherId \<mapsto> feedbacksOf (feedbackData st) teacherId @ [fb]))"
  using handle_mapping [of e st] by (simp add: dispatch_def)

lemma dispatch_prefix:
  "prefix (feedbacksOf (feedbackData st) teacherId)
     (feedbacksOf (feedbackData (dispatch lc e st)) teacherId)"
  using dispatch_mapping [of lc e st] by (auto simp: feedbacksOf_def)

lemma deliver_prefix:
  "prefix (feedbacksOf (feedbackData st) teacherId)
     (feedbacksOf (feedbackData (deliver lc es st)) teacherId)"
proof (induction es arbitrary: st)
  case Nil
  then show ?case by (simp add: deliver_def)
next
  case (Cons e es)
  have "prefix (feedbacksOf (feedbackData st) teacherId)
          (feedbacksOf (feedbackData (dispatch lc e st)) teacherId)"
    by (rule dispatch_prefix)
  also have "prefix \<dots> (feedbacksOf (feedbackData (deliver lc es (dispatch lc e st))) teacherId)"
    by (rule Cons.IH)
  finally show ?case by (simp add: deliver_def)
qed

text \<open>
  Claim C6. Every event, handled and rendered, leaves the feedback mapping as it is or
  appends one feedback at the end of the list of one teacher. Hence, over any sequence of
  events, the list a teacher had before is a prefix of the list the teacher has after: no
  stored feedback is changed, removed or moved.
\<close>

theorem feedback_mapping_only_grows:
  "(feedbackData (dispatch lc e st) = feedbackData st
     \<or> (\<exists>teacherId fb. feedbackData (dispatch lc e st)
          = (feedbackData st)(teacherId \<mapsto> feedbacksOf (feedbackData st) teacherId @ [fb])))
   \<and> prefix (feedbacksOf (feedbackData st) teacherId)
       (feedbacksOf (feedbackData (deliver lc es st)) teacherId)"
  using dispatch_mapping deliver_prefix by blast

theorem feedback_mapping_only_grows_witness:
  "feedbacksOf (feedbackData secondForm) 1 = [earlierFeedback]
   \<and> feedbacksOf (feedbackData
        (deliver codeUnitCompare [SubmitReview 2000 2001, SubmitMoreReviews] secondForm)) 1
      = [earlierFeedback,
         \<lparr>f_id = 2000, f_anonymousId = ''Anonymous 7'', f_comment = ''Great class'',
          f_rating = 9, f_timestamp = 2001\<rparr>]
   \<and> prefix (feedbacksOf (feedbackData secondForm) 1)
       (feedbacksOf (feedbackData
          (deliver codeUnitCompare [SubmitReview 2000 2001, SubmitMoreReviews] secondForm)) 1)"
  using feedback_mapping_only_grows
    [of codeUnitCompare "SubmitMoreReviews" secondForm 1
       "[SubmitReview 2000 2001, SubmitMoreReviews]"]
  by (simp add: deliver_def dispatch_def backToHome_def submitFeedback_def feedbacksOf_def
      example_defs trim_examples)

subsection \<open>The feedback view\<close>

lemma handle_keeps_teacher_invariant:
  assumes "currentView st = ''feedback'' \<longrightarrow> selectedTeacher st \<noteq> None"
  shows "currentView (handle e st) = ''feedback'' \<longrightarrow> selectedTeacher (handle e st) \<noteq> None"
  using assms
  by (cases e) (auto simp: handler_defs submitFeedback_def Let_def split: option.splits)

lemma reachable_teacher_invariant:
  "reachable lc st \<Longrightarrow> currentView st = ''feedback'' \<longrightarrow> selectedTeacher st \<noteq> None"
proof (induction rule: reachable.induct)
  case mounted
  show ?case by (simp add: initialState_def)
next
  case (delivered st e)
  then show ?case
    using handle_keeps_teacher_invariant [of st e] by (simp add: dispatch_def)
qed

lemma enter_feedback_view:
  assumes "currentView st \<noteq> ''feedback''" and "currentView (dispatch lc e st) = ''feedback''"
  shows "\<exists>teacher. e = TeacherCardClick teacher
           \<and> selectedTeacher (dispatch lc e st) = Some teacher"
  using assms
  by (cases e) (auto simp: dispatch_def handler_defs submitFeedback_def Let_def
      split: option.splits if_splits)

text \<open>
  Claim C7. In every state reachable from the mounted initial state by events the page
  offers, the view \<open>'feedback'\<close> comes with a selected teacher; and an event that enters the
  view \<open>'feedback'\<close> is a click on a teacher card, which selects that teacher in the same
  step.
\<close>

theorem feedback_view_has_teacher:
  assumes "reachable lc st"
  shows "(currentView st = ''feedback'' \<longrightarrow> selectedTeacher st \<noteq> None)
    \<and> (\<forall>e. currentView st \<noteq> ''feedback'' \<and> currentView (dispatch lc e st) = ''feedback'' \<longrightarrow>
          (\<exists>teacher. e = TeacherCardClick teacher
             \<and> selectedTeacher (dispatch lc e st) = Some teacher))"
  using reachable_teacher_invariant [OF assms] enter_feedback_view by blast

theorem feedback_view_has_teacher_witness:
  "reachable codeUnitCompare afterCardClick
   \<and> currentView afterCardClick = ''feedback''
   \<and> selectedTeacher afterCardClick = Some rajesh"
proof -
  have "offered codeUnitCompare (render codeUnitCompare initialState) (TeacherCardClick rajesh)"
    by code_simp
  then have r: "reachable codeUnitCompare afterCardClick"
    unfolding afterCardClick_def by (rule reachable.delivered [OF reachable.mounted])
  have v: "currentView afterCardClick = ''feedback''"
    by (simp add: afterCardClick_def dispatch_def selectTeacher_def)
  from feedback_view_has_teacher [OF r] v r show ?thesis
    by (simp add: afterCardClick_def dispatch_def selectTeacher_def)
qed

subsection \<open>Ratings\<close>

text \<open>
  The star control offers 1 to 10 and the form starts at 0, so in every reachable state the
  rating of the form is between 0 and 10 and every stored rating between 1 and 10.
\<close>

lemma handle_ratingsInRange:
  assumes "ratingsInRange st" and "offered lc st e"
  shows "ratingsInRange (handle e st)"
proof (cases e)
  case (SubmitReview dateNow newDate)
  with assms show ?thesis
    by (auto simp: submitFeedback_def Let_def ratingsInRange_def feedbacksOf_def
        split: option.splits)
qed (use assms in \<open>auto simp: handler_defs ratingsInRange_def Let_def\<close>)

lemma reachable_ratingsInRange: "reachable lc st \<Longrightarrow> ratingsInRange st"
proof (induction rule: reachable.induct)
  case mounted
  show ?case by (simp add: ratingsInRange_def initialState_def feedbacksOf_def)
next
  case (delivered st e)
  from delivered.IH delivered.hyps(2) have "ratingsInRange (handle e st)"
    by (rule handle_ratingsInRange)
  then show ?case by (simp add: dispatch_def ratingsInRange_def)
qed

section \<open>Binary64 division\<close>

text \<open>
  The exponent chosen by \<open>binade\<close> brackets the quotient, the rounded significand is
  within one half of the scaled quotient, and so the computed quotient is within a relative
  error of \<open>2^-53\<close> of the exact one.
\<close>

lemma bitlen_powi_bounds:
  fixes x :: int
  assumes "0 < x"
  shows "(2::rat) powi (bitlen x - 1) \<le> of_int x" and "(of_int x :: rat) < 2 powi (bitlen x)"
proof -
  from assms have pos: "1 \<le> bitlen x"
    using bitlen_eq_zero_iff [of x] bitlen_nonneg [of x] by linarith
  from bitlen_bounds [OF assms]
  have lo: "2 ^ nat (bitlen x - 1) \<le> x" and hi: "x < 2 ^ nat (bitlen x)" by simp_all
  have "(2::rat) powi (bitlen x - 1) = 2 ^ nat (bitlen x - 1)"
    using pos by (simp add: power_int_def)
  also have "\<dots> = of_int (2 ^ nat (bitlen x - 1))" by simp
  also have "\<dots> \<le> of_int x" using lo by (simp only: of_int_le_iff)
  finally show "(2::rat) powi (bitlen x - 1) \<le> of_int x" .
  have "(of_int x :: rat) < of_int (2 ^ nat (bitlen x))" using hi by (simp only: of_int_less_iff)
  also have "\<dots> = 2 ^ nat (bitlen x)" by simp
  also have "\<dots> = 2 powi (bitlen x)" using pos by (simp add: power_int_def)
  finally show "(of_int x :: rat) < 2 powi (bitlen x)" .
qed

lemma two_powi_split: "(2::rat) ^ nat e / 2 ^ nat (- e) = 2 powi e"
  by (cases "0 \<le> e") (simp_all add: power_int_def power_one_over)

lemma binade_test:
  fixes a b :: int
  assumes "0 < b"
  shows "(b * 2 ^ nat e \<le> a * 2 ^ nat (- e)) = ((2::rat) powi e \<le> of_int a / of_int b)"
proof -
  have "(b * 2 ^ nat e \<le> a * 2 ^ nat (- e))
      = ((of_int (b * 2 ^ nat e) :: rat) \<le> of_int (a * 2 ^ nat (- e)))"
    by (simp only: of_int_le_iff)
  also have "\<dots> = ((of_int b :: rat) * 2 ^ nat e \<le> of_int a * 2 ^ nat (- e))" by simp
  also have "\<dots> = ((2::rat) ^ nat e / 2 ^ nat (- e) \<le> of_int a / of_int b)"
    using assms by (simp add: field_simps)
  finally show ?thesis by (simp only: two_powi_split)
qed

lemma binade_bounds:
  fixes a b :: int
  assumes "0 < a" and "0 < b"
  shows "(2::rat) powi (binade a b) \<le> of_int a / of_int b"
    and "(of_int a / of_int b :: rat) < 2 powi (binade a b + 1)"
proof -
  let ?e0 = "bitlen a - bitlen b"
  let ?x = "of_int a / of_int b :: rat"
  have bpos: "(0::rat) < of_int b" using assms by simp
  have apos: "(0::rat) < of_int a" using assms by simp
  note ba = bitlen_powi_bounds [OF assms(1)]
  note bb = bitlen_powi_bounds [OF assms(2)]
  have up0: "?x < 2 powi (?e0 + 1)"
  proof -
    have "?x < 2 powi (bitlen a) / of_int b"
      using ba(2) bpos by (simp add: divide_strict_right_mono)
    also have "\<dots> \<le> 2 powi (bitlen a) / 2 powi (bitlen b - 1)"
    proof (rule divide_left_mono)
      show "(2::rat) powi (bitlen b - 1) \<le> of_int b" by (rule bb(1))
      show "(0::rat) \<le> 2 powi bitlen a" by simp
      show "(0::rat) < of_int b * 2 powi (bitlen b - 1)" using bpos by simp
    qed
    also have "\<dots> = 2 powi (bitlen a - (bitlen b - 1))"
      by (simp add: power_int_diff)
    finally show ?thesis by (simp add: algebra_simps)
  qed
  have lo0: "2 powi (?e0 - 1) \<le> ?x"
  proof -
    have "(2::rat) powi (?e0 - 1) = 2 powi (bitlen a - 1) / 2 powi (bitlen b)"
      by (simp add: power_int_diff [symmetric] algebra_simps)
    also have "\<dots> \<le> of_int a / 2 powi (bitlen b)"
      using ba(1) by (simp add: divide_right_mono)
    also have "\<dots> \<le> ?x"
    proof (rule divide_left_mono)
      show "(of_int b :: rat) \<le> 2 powi bitlen b" using bb(2) by simp
      show "(0::rat) \<le> of_int a" using apos by simp
      show "(0::rat) < 2 powi bitlen b * of_int b" using bpos by simp
    qed
    finally show ?thesis .
  qed
  show "(2::rat) powi (binade a b) \<le> ?x"
    using lo0 binade_test [OF assms(2), of ?e0 a] by (simp add: binade_def Let_def)
  show "?x < 2 powi (binade a b + 1)"
    using up0 binade_test [OF assms(2), of ?e0 a] by (auto simp: binade_def Let_def)
qed

lemma roundHalfEven_error:
  fixes num den :: int
  assumes "0 < den"
  shows "\<bar>(of_int (roundHalfEven num den) :: rat) - of_int num / of_int den\<bar> \<le> 1 / 2"
proof -
  define d where "d = num div den"
  define r where "r = num mod den"
  have num: "num = d * den + r" by (simp add: d_def r_def)
  have r: "0 \<le> r" "r < den" using assms by (simp_all add: r_def)
  have dpos: "(0::rat) < of_int den" using assms by simp
  have q: "(of_int num / of_int den :: rat) = of_int d + of_int r / of_int den"
    using dpos by (simp add: num field_simps)
  have r0: "(0::rat) \<le> of_int r / of_int den" using r dpos by simp
  have r1: "(of_int r / of_int den :: rat) < 1" using r dpos by simp
  consider "2 * r < den" | "den < 2 * r" | "2 * r = den" by linarith
  then show ?thesis
  proof cases
    case 1
    then have "(of_int (2 * r) :: rat) < of_int den" by (simp only: of_int_less_iff)
    then have "(of_int r / of_int den :: rat) < 1 / 2" using dpos by (simp add: field_simps)
    moreover have "roundHalfEven num den = d"
      using 1 by (simp add: roundHalfEven_def d_def r_def Let_def)
    ultimately show ?thesis using q r0 by simp
  next
    case 2
    then have "(of_int den :: rat) < of_int (2 * r)" by (simp only: of_int_less_iff)
    then have "(1 / 2 :: rat) < of_int r / of_int den" using dpos by (simp add: field_simps)
    moreover have "roundHalfEven num den = d + 1"
      using 2 by (simp add: roundHalfEven_def d_def r_def Let_def)
    ultimately show ?thesis using q r1 by simp
  next
    case 3
    then have "(of_int (2 * r) :: rat) = of_int den" by simp
    then have h: "(of_int r / of_int den :: rat) = 1 / 2" using dpos by (simp add: field_simps)
    have "roundHalfEven num den = d \<or> roundHalfEven num den = d + 1"
      using 3 by (simp add: roundHalfEven_def d_def r_def Let_def)
    then show ?thesis using q h by auto
  qed
qed

lemma roundHalfEven_exact:
  fixes num den :: int
  assumes "0 < den" and "den dvd num"
  shows "roundHalfEven num den = num div den"
  using assms by (simp add: roundHalfEven_def Let_def mod_eq_0_iff_dvd)

lemma powi_flip: "(2::rat) powi (52 - e) = 1 / 2 powi (e - 52)"
proof -
  have "(2::rat) powi (52 - e) = 2 powi (- (e - 52))" by simp
  also have "\<dots> = inverse (2 powi (e - 52))" by (rule power_int_minus)
  finally show ?thesis by (simp add: divide_inverse)
qed

lemma double_of_quot_signed:
  assumes "p \<noteq> 0" and "q \<noteq> 0"
  shows "double_of_quot p q =
    of_int (sgn p * sgn q)
      * (of_int (roundHalfEven (\<bar>p\<bar> * 2 ^ nat (52 - binade \<bar>p\<bar> \<bar>q\<bar>))
                   (\<bar>q\<bar> * 2 ^ nat (binade \<bar>p\<bar> \<bar>q\<bar> - 52)))
         * 2 powi (binade \<bar>p\<bar> \<bar>q\<bar> - 52))"
proof -
  have "double_of_quot p q =
      of_int (sgn p * sgn q * roundHalfEven (\<bar>p\<bar> * 2 ^ nat (52 - binade \<bar>p\<bar> \<bar>q\<bar>))
                   (\<bar>q\<bar> * 2 ^ nat (binade \<bar>p\<bar> \<bar>q\<bar> - 52)))
         * 2 powi (binade \<bar>p\<bar> \<bar>q\<bar> - 52)"
    unfolding double_of_quot_def Let_def using assms by (simp only: if_False simp_thms)
  then show ?thesis by (simp only: of_int_mult mult.assoc)
qed

lemma quot_signed:
  fixes p q :: int
  assumes "p \<noteq> 0" and "q \<noteq> 0"
  shows "(of_int p / of_int q :: rat) = of_int (sgn p * sgn q) * (of_int \<bar>p\<bar> / of_int \<bar>q\<bar>)"
proof -
  have p: "(of_int p :: rat) = of_int (sgn p) * of_int \<bar>p\<bar>"
    by (simp only: of_int_mult [symmetric] sgn_mult_abs)
  have q: "(of_int q :: rat) = of_int (sgn q) * of_int \<bar>q\<bar>"
    by (simp only: of_int_mult [symmetric] sgn_mult_abs)
  have s: "(of_int (sgn q) :: rat) = 1 \<or> (of_int (sgn q) :: rat) = - 1"
    using assms(2) by (cases "0 < q") (simp_all add: sgn_if)
  have "(of_int p / of_int q :: rat)
      = (of_int (sgn p) * of_int \<bar>p\<bar>) / (of_int (sgn q) * of_int \<bar>q\<bar>)"
    using p q by simp
  also have "\<dots> = of_int (sgn p) * of_int (sgn q) * (of_int \<bar>p\<bar> / of_int \<bar>q\<bar>)"
    using s by auto
  finally show ?thesis by (simp only: of_int_mult)
qed

lemma sgn_product_cases:
  fixes p q :: int
  assumes "p \<noteq> 0" and "q \<noteq> 0"
  shows "sgn p * sgn q = 1 \<or> sgn p * sgn q = - 1"
  using assms by (cases "0 < p"; cases "0 < q") (simp_all add: sgn_if)

lemma double_of_quot_pos_error:
  fixes a b :: int
  assumes "0 < a" and "0 < b"
  defines "e \<equiv> binade a b"
  defines "m \<equiv> roundHalfEven (a * 2 ^ nat (52 - e)) (b * 2 ^ nat (e - 52))"
  shows "\<bar>(of_int m :: rat) * 2 powi (e - 52) - of_int a / of_int b\<bar>
          \<le> (of_int a / of_int b) / 2 ^ 53"
proof -
  let ?x = "of_int a / of_int b :: rat"
  let ?s = "(2::rat) powi (e - 52)"
  have spos: "0 < ?s" by simp
  have den: "0 < b * 2 ^ nat (e - 52)" using assms(2) by simp
  have scaled: "(of_int (a * 2 ^ nat (52 - e)) :: rat) / of_int (b * 2 ^ nat (e - 52)) = ?x / ?s"
  proof -
    have "(of_int (a * 2 ^ nat (52 - e)) :: rat) / of_int (b * 2 ^ nat (e - 52))
        = ?x * ((2::rat) ^ nat (52 - e) / 2 ^ nat (- (52 - e)))" by simp
    also have "\<dots> = ?x * 2 powi (52 - e)" by (simp only: two_powi_split)
    also have "\<dots> = ?x / ?s" by (simp only: powi_flip times_divide_eq_right mult_1_right)
    finally show ?thesis .
  qed
  have "\<bar>(of_int m :: rat) - ?x / ?s\<bar> \<le> 1 / 2"
    using roundHalfEven_error [OF den, of "a * 2 ^ nat (52 - e)"] scaled by (simp only: m_def)
  then have "\<bar>(of_int m :: rat) - ?x / ?s\<bar> * ?s \<le> 1 / 2 * ?s"
    using spos by (simp only: mult_right_mono less_imp_le)
  moreover have "\<bar>(of_int m :: rat) - ?x / ?s\<bar> * ?s = \<bar>of_int m * ?s - ?x\<bar>"
  proof -
    have "\<bar>(of_int m :: rat) - ?x / ?s\<bar> * ?s = \<bar>(of_int m - ?x / ?s) * ?s\<bar>"
      using spos by (simp add: abs_mult)
    also have "(of_int m - ?x / ?s) * ?s = of_int m * ?s - ?x"
      using spos by (simp add: left_diff_distrib)
    finally show ?thesis .
  qed
  moreover have "1 / 2 * ?s \<le> ?x / 2 ^ 53"
  proof -
    have "?s = 2 powi e / 2 powi 52" by (rule power_int_diff) simp
    then have "1 / 2 * ?s = 2 powi e / 2 ^ 53" by simp
    also have "\<dots> \<le> ?x / 2 ^ 53"
      using binade_bounds(1) [OF assms(1,2)] by (simp only: e_def divide_right_mono zero_le_power zero_le_numeral)
    finally show ?thesis .
  qed
  ultimately show ?thesis by linarith
qed

lemma double_of_quot_error:
  assumes "p \<noteq> 0" and "q \<noteq> 0"
  shows "\<bar>double_of_quot p q - of_int p / of_int q\<bar> \<le> \<bar>of_int p / of_int q\<bar> / 2 ^ 53"
proof -
  define x :: rat where "x = of_int \<bar>p\<bar> / of_int \<bar>q\<bar>"
  define d :: rat where
    "d = of_int (roundHalfEven (\<bar>p\<bar> * 2 ^ nat (52 - binade \<bar>p\<bar> \<bar>q\<bar>))
                   (\<bar>q\<bar> * 2 ^ nat (binade \<bar>p\<bar> \<bar>q\<bar> - 52)))
         * 2 powi (binade \<bar>p\<bar> \<bar>q\<bar> - 52)"
  have pos: "0 < \<bar>p\<bar>" "0 < \<bar>q\<bar>" using assms by simp_all
  have err: "\<bar>d - x\<bar> \<le> x / 2 ^ 53"
    unfolding d_def x_def by (rule double_of_quot_pos_error [OF pos])
  have xpos: "0 \<le> x" unfolding x_def by simp
  have dq: "double_of_quot p q = of_int (sgn p * sgn q) * d"
    unfolding d_def by (rule double_of_quot_signed [OF assms])
  have pq: "(of_int p / of_int q :: rat) = of_int (sgn p * sgn q) * x"
    unfolding x_def by (rule quot_signed [OF assms])
  from sgn_product_cases [OF assms] show ?thesis
  proof
    assume s: "sgn p * sgn q = 1"
    have "double_of_quot p q = d" "(of_int p / of_int q :: rat) = x"
      using dq pq by (simp_all only: s of_int_1 mult_1)
    then show ?thesis using err xpos by simp
  next
    assume s: "sgn p * sgn q = - 1"
    have "double_of_quot p q = - d" "(of_int p / of_int q :: rat) = - x"
      using dq pq by (simp_all only: s of_int_minus of_int_1 mult_minus1)
    moreover have "\<bar>- d - (- x)\<bar> = \<bar>d - x\<bar>" by simp
    ultimately show ?thesis using err xpos by (simp only: abs_minus_cancel abs_of_nonneg)
  qed
qed

lemma double_of_quot_exact:
  assumes "q \<noteq> 0" and "\<bar>k\<bar> < 2 ^ 53"
  shows "double_of_quot (k * q) q = of_int k"
proof (cases "k = 0")
  case True
  then show ?thesis by (simp add: double_of_quot_def)
next
  case False
  define a where "a = \<bar>k * q\<bar>"
  define b where "b = \<bar>q\<bar>"
  define e where "e = binade a b"
  have pos: "0 < a" "0 < b" using assms False by (simp_all add: a_def b_def)
  have a: "a = \<bar>k\<bar> * b" by (simp add: a_def b_def abs_mult)
  have quo: "(of_int a / of_int b :: rat) = of_int \<bar>k\<bar>" using pos by (simp add: a)
  have lo: "(2::rat) powi e \<le> of_int \<bar>k\<bar>"
    using binade_bounds(1) [OF pos] by (simp only: e_def quo)
  have hi: "(of_int \<bar>k\<bar> :: rat) < 2 powi (e + 1)"
    using binade_bounds(2) [OF pos] by (simp only: e_def quo)
  have k53: "(of_int \<bar>k\<bar> :: rat) < 2 powi 53"
  proof -
    have "(of_int \<bar>k\<bar> :: rat) < of_int (2 ^ 53)" using assms(2) by (simp only: of_int_less_iff)
    then show ?thesis by simp
  qed
  have e_hi: "e \<le> 52"
  proof (rule ccontr)
    assume "\<not> e \<le> 52"
    then have "53 \<le> e" by simp
    then have "(2::rat) powi 53 \<le> 2 powi e" by (intro power_int_increasing) simp_all
    with lo k53 show False by linarith
  qed
  have e_lo: "0 \<le> e"
  proof (rule ccontr)
    assume "\<not> 0 \<le> e"
    then have "e + 1 \<le> 0" by simp
    then have "(2::rat) powi (e + 1) \<le> 2 powi 0" by (intro power_int_increasing) simp_all
    moreover have "(1::rat) \<le> of_int \<bar>k\<bar>"
    proof -
      have "1 \<le> \<bar>k\<bar>" using False by simp
      then have "(of_int 1 :: rat) \<le> of_int \<bar>k\<bar>" by (simp only: of_int_le_iff)
      then show ?thesis by simp
    qed
    ultimately show False using hi by simp
  qed
  define n where "n = nat (52 - e)"
  have den: "b * 2 ^ nat (e - 52) = b" using e_hi by simp
  have num: "a * 2 ^ nat (52 - e) = (\<bar>k\<bar> * 2 ^ n) * b" by (simp add: a n_def)
  have m: "roundHalfEven (a * 2 ^ nat (52 - e)) (b * 2 ^ nat (e - 52)) = \<bar>k\<bar> * 2 ^ n"
  proof -
    have "roundHalfEven ((\<bar>k\<bar> * 2 ^ n) * b) b = ((\<bar>k\<bar> * 2 ^ n) * b) div b"
      by (rule roundHalfEven_exact [OF pos(2)]) simp
    also have "\<dots> = \<bar>k\<bar> * 2 ^ n" using pos(2) by simp
    finally show ?thesis by (simp only: den num)
  qed
  have scale: "(2::rat) ^ n * 2 powi (e - 52) = 1"
  proof -
    have "(2::rat) ^ n = 2 powi (52 - e)" using e_hi by (simp add: n_def power_int_def)
    then show ?thesis by (simp add: powi_flip)
  qed
  have kq: "k * q \<noteq> 0" using False assms(1) by simp
  have "double_of_quot (k * q) q =
      of_int (sgn (k * q) * sgn q) * (of_int (\<bar>k\<bar> * 2 ^ n) * 2 powi (e - 52))"
    using double_of_quot_signed [OF kq assms(1)] m by (simp only: a_def b_def e_def)
  also have "of_int (\<bar>k\<bar> * 2 ^ n) * (2::rat) powi (e - 52) = of_int \<bar>k\<bar>"
    using scale by (simp add: mult.assoc)
  also have "sgn (k * q) * sgn q = sgn k"
    using assms(1) by (simp add: sgn_mult mult.assoc)
  also have "(of_int (sgn k) :: rat) * of_int \<bar>k\<bar> = of_int k"
    by (simp only: of_int_mult [symmetric] sgn_mult_abs)
  finally show ?thesis .
qed

lemma floor_double_of_quot:
  assumes "0 < q" and "\<bar>p\<bar> < 2 ^ 53"
  shows "\<lfloor>double_of_quot p q\<rfloor> = p div q"
proof (cases "q dvd p")
  case True
  then obtain k where k: "p = k * q" by (auto simp: dvd_def mult.commute)
  have "\<bar>k\<bar> \<le> \<bar>k\<bar> * \<bar>q\<bar>" using assms(1) by (simp add: mult_le_cancel_left1)
  then have "\<bar>k\<bar> < 2 ^ 53" using assms(2) by (simp add: k abs_mult)
  then have "double_of_quot (k * q) q = of_int k"
    using assms(1) by (intro double_of_quot_exact) simp_all
  then show ?thesis using assms(1) by (simp add: k)
next
  case False
  define k where "k = p div q"
  define r where "r = p mod q"
  define x :: rat where "x = of_int p / of_int q"
  have p: "p = k * q + r" by (simp add: k_def r_def)
  have "0 \<le> r" "r < q" "r \<noteq> 0"
    using assms(1) False by (simp_all add: r_def mod_eq_0_iff_dvd)
  then have r: "1 \<le> r" "r \<le> q - 1" by linarith+
  have qpos: "(0::rat) < of_int q" using assms(1) by simp
  have pn0: "p \<noteq> 0" using False by auto
  have x: "x = of_int k + of_int r / of_int q"
    using qpos by (simp add: x_def p field_simps)
  have rl: "(1::rat) / of_int q \<le> of_int r / of_int q"
  proof -
    have "(of_int 1 :: rat) \<le> of_int r" using r(1) by (simp only: of_int_le_iff)
    then show ?thesis using qpos by (simp add: divide_right_mono)
  qed
  have ru: "(of_int r :: rat) / of_int q \<le> 1 - 1 / of_int q"
  proof -
    have "(of_int r :: rat) \<le> of_int (q - 1)" using r(2) by (simp only: of_int_le_iff)
    then have "(of_int r :: rat) / of_int q \<le> of_int (q - 1) / of_int q"
      using qpos by (simp add: divide_right_mono)
    also have "\<dots> = 1 - 1 / of_int q" using qpos by (simp add: field_simps)
    finally show ?thesis .
  qed
  have err: "\<bar>double_of_quot p q - x\<bar> < 1 / of_int q"
  proof -
    have "\<bar>double_of_quot p q - x\<bar> \<le> \<bar>x\<bar> / 2 ^ 53"
      unfolding x_def using assms(1) by (intro double_of_quot_error [OF pn0]) simp
    also have "\<bar>x\<bar> = of_int \<bar>p\<bar> / of_int q" using qpos by (simp add: x_def)
    also have "(of_int \<bar>p\<bar> :: rat) / of_int q / 2 ^ 53 = (of_int \<bar>p\<bar> / 2 ^ 53) / of_int q"
      by simp
    also have "\<dots> < 1 / of_int q"
    proof -
      have "(of_int \<bar>p\<bar> :: rat) < of_int (2 ^ 53)" using assms(2) by (simp only: of_int_less_iff)
      then have "(of_int \<bar>p\<bar> :: rat) / 2 ^ 53 < 1" by simp
      then show ?thesis using qpos by (rule divide_strict_right_mono)
    qed
    finally show ?thesis .
  qed
  have "of_int k < double_of_quot p q" using err x rl by linarith
  moreover have "double_of_quot p q < of_int k + 1" using err x ru by linarith
  ultimately have "\<lfloor>double_of_quot p q\<rfloor> = k" by (intro floor_unique) simp_all
  then show ?thesis by (simp add: k_def)
qed



section \<open>Numbers as text\<close>

text \<open>
  \<open>showNat\<close> writes decimal digits only, and reading them back gives the number; the text
  \<open>fixed1 n\<close> reads back as the binary64 nearest to \<open>n / 10\<close>.
\<close>

lemma digitChar_values:
  "digitChar 0 = CHR ''0''" "digitChar 1 = CHR ''1''" "digitChar 2 = CHR ''2''"
  "digitChar 3 = CHR ''3''" "digitChar 4 = CHR ''4''" "digitChar 5 = CHR ''5''"
  "digitChar 6 = CHR ''6''" "digitChar 7 = CHR ''7''" "digitChar 8 = CHR ''8''"
  "digitChar 9 = CHR ''9''" "digitChar (Suc 0) = CHR ''1''"
  by code_simp+

lemma showInt_small:
  "showInt 1 = ''1''"
  by (simp add: showInt_def showNat.simps digitChar_values)

lemma isDigit_digitChar: "d < 10 \<Longrightarrow> isDigit (digitChar d)"
  by (simp add: isDigit_def digitChar_def)

lemma showNat_digits: "list_all isDigit (showNat n)"
proof (induction n rule: showNat.induct)
  case (1 n)
  show ?case
  proof (cases "n < 10")
    case True
    then show ?thesis by (subst showNat.simps) (simp add: isDigit_digitChar)
  next
    case False
    then show ?thesis using 1 by (subst showNat.simps) (simp add: isDigit_digitChar)
  qed
qed

lemma showNat_nonempty: "showNat n \<noteq> []"
  by (subst showNat.simps) simp

lemma showNat_digit: "d < 10 \<Longrightarrow> showNat d = [digitChar d]"
  by (subst showNat.simps) simp

lemma point_not_digit: "\<not> isDigit (CHR ''.'')" "\<not> isDigit (CHR ''-'')"
  by (simp_all add: isDigit_def)

lemma digitsValue_snoc:
  "digitsValue (ds @ [c]) = 10 * digitsValue ds + ((of_char c :: nat) - 48)"
  by (simp add: digitsValue_def)

lemma digitValue_digitChar: "d < 10 \<Longrightarrow> (of_char (digitChar d) :: nat) - 48 = d"
  by (simp add: digitChar_def)

lemma digitsValue_showNat: "digitsValue (showNat n) = n"
proof (induction n rule: showNat.induct)
  case (1 n)
  show ?case
  proof (cases "n < 10")
    case True
    then show ?thesis
      by (subst showNat.simps) (simp add: digitsValue_def digitValue_digitChar)
  next
    case False
    then have "digitsValue (showNat n)
        = digitsValue (showNat (n div 10) @ [digitChar (n mod 10)])"
      by (subst showNat.simps) simp
    also have "\<dots> = 10 * (n div 10) + n mod 10"
      using 1 False by (simp add: digitsValue_snoc digitValue_digitChar)
    finally show ?thesis by simp
  qed
qed

lemma parseDecimal_fixed: "parseDecimal (showNat a @ CHR ''.'' # showNat b) \<noteq> None"
proof -
  have nodot: "\<forall>c \<in> set (showNat a). c \<noteq> CHR ''.''"
    using showNat_digits [of a] point_not_digit(1) by (auto simp: list_all_iff)
  have tw: "takeWhile (\<lambda>c. c \<noteq> CHR ''.'') (showNat a @ CHR ''.'' # showNat b) = showNat a"
    using nodot by (simp add: takeWhile_append2)
  have dw: "dropWhile (\<lambda>c. c \<noteq> CHR ''.'') (showNat a @ CHR ''.'' # showNat b)
      = CHR ''.'' # showNat b"
    using nodot by (simp add: dropWhile_append2)
  show ?thesis
    by (simp add: parseDecimal_def tw dw Let_def showNat_digits showNat_nonempty)
qed

lemma Number_of_fixed1: "Number_of (fixed1 n) = Some (double_of_quot (int n) 10)"
proof -
  let ?a = "showNat (n div 10)"
  let ?b = "[digitChar (n mod 10)]"
  have fx: "fixed1 n = ?a @ CHR ''.'' # ?b" by (simp add: fixed1_def showNat_digit)
  have nodot: "\<forall>c \<in> set ?a. c \<noteq> CHR ''.''"
    using showNat_digits [of "n div 10"] point_not_digit(1) by (auto simp: list_all_iff)
  have tw: "takeWhile (\<lambda>c. c \<noteq> CHR ''.'') (?a @ CHR ''.'' # ?b) = ?a"
    using nodot by (simp add: takeWhile_append2)
  have dw: "dropWhile (\<lambda>c. c \<noteq> CHR ''.'') (?a @ CHR ''.'' # ?b) = CHR ''.'' # ?b"
    using nodot by (simp add: dropWhile_append2)
  have val: "digitsValue (?a @ ?b) = n"
    by (simp add: digitsValue_snoc digitsValue_showNat digitValue_digitChar)
  have pd: "parseDecimal (?a @ CHR ''.'' # ?b) = Some (double_of_quot (int n) 10)"
    using val by (simp add: parseDecimal_def tw dw Let_def showNat_digits showNat_nonempty
        isDigit_digitChar)
  obtain c cs where s: "?a = c # cs"
    using showNat_nonempty [of "n div 10"] by (cases ?a) auto
  have "isDigit c" using showNat_digits [of "n div 10"] by (simp add: s)
  then have "c \<noteq> CHR ''-''" using point_not_digit(2) by auto
  then show ?thesis using pd by (simp add: Number_of_def fx s)
qed

lemma Number_of_toFixed1: "Number_of (toFixed1 x) \<noteq> None"
proof (cases "x < 0")
  case True
  then show ?thesis
    using parseDecimal_fixed by (simp add: Number_of_def toFixed1_def fixed1_def)
next
  case False
  obtain c cs where s: "showNat (tenths x div 10) = c # cs"
    using showNat_nonempty [of "tenths x div 10"] by (cases "showNat (tenths x div 10)") auto
  have "isDigit c" using showNat_digits [of "tenths x div 10"] by (simp add: s)
  then have "c \<noteq> CHR ''-''" using point_not_digit(2) by auto
  then show ?thesis
    using False parseDecimal_fixed [of "tenths x div 10" "tenths x mod 10"]
    by (simp add: Number_of_def toFixed1_def fixed1_def s)
qed

lemma Number_of_zero: "Number_of ''0.0'' \<noteq> None"
  by code_simp

section \<open>Elapsed time\<close>

text \<open>
  Claim C8. With \<open>m\<close> the whole minutes elapsed from the timestamp to the clock reading
  \<open>now\<close>, rounded down, \<open>timeAgo\<close> returns "Just now" when \<open>m < 1\<close>, the digits of \<open>m\<close>
  followed by "m ago" when \<open>m < 60\<close>, the digits of \<open>m\<close> divided by 60, rounded down,
  followed by "h ago" when \<open>m < 1440\<close>, and otherwise the digits of \<open>m\<close> divided by 1440,
  rounded down, followed by "d ago". A timestamp 90 seconds in the past gives "1m ago", one
  30 seconds in the past "Just now". The two instants are less than \<open>2^53\<close> milliseconds
  (some 285 000 years) apart: the range in which a difference of time values is an exact
  number.
\<close>

theorem timeAgo_tiers:
  assumes "\<bar>now - timestamp\<bar> < 2 ^ 53"
  shows "timeAgo now timestamp =
      (if (now - timestamp) div 60000 < 1 then ''Just now''
       else if (now - timestamp) div 60000 < 60
         then showInt ((now - timestamp) div 60000) @ ''m ago''
       else if (now - timestamp) div 60000 < 1440
         then showInt ((now - timestamp) div 60000 div 60) @ ''h ago''
       else showInt ((now - timestamp) div 60000 div 1440) @ ''d ago'')
    \<and> timeAgo now (now - 90000) = ''1m ago''
    \<and> timeAgo now (now - 30000) = ''Just now''"
proof -
  have minutes: "\<lfloor>double_of_quot d (1000 * 60)\<rfloor> = d div 60000" if "\<bar>d\<bar> < 2 ^ 53" for d
    using floor_double_of_quot [of 60000 d] that by simp
  have inner: "\<lfloor>double_of_quot (d div 60000) q\<rfloor> = d div 60000 div q"
    if "\<bar>d\<bar> < 2 ^ 53" and "0 < q" for d q
  proof -
    have "\<bar>d div 60000\<bar> \<le> \<bar>d\<bar>" by linarith
    with that(1) have "\<bar>d div 60000\<bar> < 2 ^ 53" by linarith
    with that(2) show ?thesis by (rule floor_double_of_quot)
  qed
  have general: "timeAgo now timestamp =
      (if (now - timestamp) div 60000 < 1 then ''Just now''
       else if (now - timestamp) div 60000 < 60
         then showInt ((now - timestamp) div 60000) @ ''m ago''
       else if (now - timestamp) div 60000 < 1440
         then showInt ((now - timestamp) div 60000 div 60) @ ''h ago''
       else showInt ((now - timestamp) div 60000 div 1440) @ ''d ago'')"
    if "\<bar>now - timestamp\<bar> < 2 ^ 53" for now timestamp
    using minutes [OF that] inner [OF that, of 60] inner [OF that, of 1440]
    by (simp add: timeAgo_def Let_def)
  have "timeAgo now (now - 90000) = ''1m ago''"
    using general [of now "now - 90000"] by (simp add: showInt_small)
  moreover have "timeAgo now (now - 30000) = ''Just now''"
    using general [of now "now - 30000"] by simp
  ultimately show ?thesis using general [OF assms] by simp
qed

theorem timeAgo_tiers_witness:
  "\<bar>1000000 - (- 9800005 :: int)\<bar> < 2 ^ 53 \<and> timeAgo 1000000 (- 9800005) = ''3h ago''"
  using timeAgo_tiers [of 1000000 "- 9800005"]
  by (simp add: showInt_def showNat.simps digitChar_values)

section \<open>Average rating\<close>




text \<open>
  A mean that lies exactly between two tenths is not a binary64 number unless it is a
  multiple of one quarter, so the division decides which tenth is written: 29 / 20 is
  stored slightly below 1.45.
\<close>

lemma tie_below: "toFixed1 (double_of_quot 29 20) = ''1.4''"
  by code_simp



section \<open>The filtered and sorted roster\<close>

text \<open>
  For a comparator that agrees with the order of a key, the insertion sort that models
  \<open>Array.prototype.sort\<close> is the stable sort by that key.
\<close>

lemma js_insert_insort_key:
  assumes "\<forall>a b. (cmp a b \<le> 0) = (key a \<le> key b)"
  shows "js_insert cmp x ys = insort_key key x ys"
  using assms by (induction ys) simp_all

lemma js_sort_sort_key:
  assumes "\<forall>a b. (cmp a b \<le> 0) = (key a \<le> key b)"
  shows "js_sort cmp xs = sort_key key xs"
proof -
  have "js_insert cmp = insort_key key"
    using js_insert_insort_key [OF assms] by (intro ext)
  then show ?thesis by (simp add: js_sort_def sort_key_def)
qed

lemma includes_str_sublist: "includes_str s needle = sublist needle s"
  by (induction s) (simp_all add: sublist_Cons_right)

lemma Number_of_calculateAverageRating:
  "Number_of (calculateAverageRating fd teacherId) = Some (ratingValue fd teacherId)"
proof -
  have "Number_of (calculateAverageRating fd teacherId) \<noteq> None"
    using Number_of_toFixed1 Number_of_zero by (simp add: calculateAverageRating_def Let_def)
  then show ?thesis by (auto simp: ratingValue_def)
qed

lemma compareTeachers_rating:
  "(compareTeachers lc fd ''rating'' a b \<le> 0)
    = (- ratingValue fd (t_id a) \<le> - ratingValue fd (t_id b))"
  by (simp add: compareTeachers_def Number_of_calculateAverageRating)

lemma compareTeachers_feedbacks:
  "(compareTeachers lc fd ''feedbacks'' a b \<le> 0)
    = (- getFeedbackCount fd (t_id a) \<le> - getFeedbackCount fd (t_id b))"
  by (simp add: compareTeachers_def)

lemma compareTeachers_name:
  assumes "\<forall>s t. (lc s t \<le> 0) = (ckey s \<le> ckey t)"
    and "sortKey \<noteq> ''rating''" and "sortKey \<noteq> ''feedbacks''"
  shows "(compareTeachers lc fd sortKey a b \<le> 0) = (ckey (t_name a) \<le> ckey (t_name b))"
  using assms by (simp add: compareTeachers_def)

lemma matchesSearch_spec:
  "matchesSearch query t =
    (caseInsensitiveSubstring query (t_name t)
     \<or> caseInsensitiveSubstring query (t_department t)
     \<or> caseInsensitiveSubstring query (t_subject t))"
  by (simp add: matchesSearch_def caseInsensitiveSubstring_def includes_str_sublist)

lemma filteredAndSortedTeachers_pipeline:
  assumes "\<forall>s t. (lc s t \<le> 0) = (ckey s \<le> ckey t)"
  shows "fst (filteredAndSortedTeachers lc st) = rosterPipeline_spec ckey st"
proof -
  have rating: "js_sort (compareTeachers lc (feedbackData st) ''rating'') xs
      = sort_key (\<lambda>t. - ratingValue (feedbackData st) (t_id t)) xs" for xs
    by (rule js_sort_sort_key) (simp add: compareTeachers_rating)
  have feedbacks: "js_sort (compareTeachers lc (feedbackData st) ''feedbacks'') xs
      = sort_key (\<lambda>t. - getFeedbackCount (feedbackData st) (t_id t)) xs" for xs
    by (rule js_sort_sort_key) (simp add: compareTeachers_feedbacks)
  have name: "js_sort (compareTeachers lc (feedbackData st) (sortBy st)) xs
      = sort_key (\<lambda>t. ckey (t_name t)) xs"
    if "sortBy st \<noteq> ''rating''" and "sortBy st \<noteq> ''feedbacks''" for xs
    by (rule js_sort_sort_key) (simp add: compareTeachers_name [OF assms that])
  have msearch: "matchesSearch (searchQuery st) =
    (\<lambda>t. caseInsensitiveSubstring (searchQuery st) (t_name t)
         \<or> caseInsensitiveSubstring (searchQuery st) (t_department t)
         \<or> caseInsensitiveSubstring (searchQuery st) (t_subject t))"
    by (intro ext) (rule matchesSearch_spec)
  show ?thesis
  proof (cases "sortBy st = ''rating''")
    case True
    then show ?thesis
      by (simp add: filteredAndSortedTeachers_def rosterPipeline_spec_def Let_def rating msearch)
  next
    case nr: False
    show ?thesis
    proof (cases "sortBy st = ''feedbacks''")
      case True
      then show ?thesis
        by (simp add: filteredAndSortedTeachers_def rosterPipeline_spec_def Let_def feedbacks msearch)
    next
      case False
      with nr show ?thesis
        by (simp add: filteredAndSortedTeachers_def rosterPipeline_spec_def Let_def name msearch)
    qed
  qed
qed

lemma filteredAndSortedTeachers_array:
  "snd (filteredAndSortedTeachers lc st) =
    (if filterDepartment st = ''all'' \<and> trim (searchQuery st) = []
     then fst (filteredAndSortedTeachers lc st) else teachers st)"
  by (simp add: filteredAndSortedTeachers_def Let_def)

text \<open>
  A render of a rendered state changes nothing, so it does not matter that the model
  evaluates the memo on every render.
\<close>

lemma js_sort_idempotent:
  fixes key :: "'a \<Rightarrow> 'b::linorder"
  assumes "\<forall>a b. (cmp a b \<le> 0) = (key a \<le> key b)"
  shows "js_sort cmp (js_sort cmp xs) = js_sort cmp xs"
  by (simp add: js_sort_sort_key [OF assms] sort_key_id_if_sorted)

lemma render_idempotent:
  fixes ckey :: "string \<Rightarrow> 'k::linorder"
  assumes "\<forall>s t. (lc s t \<le> 0) = (ckey s \<le> ckey t)"
  shows "render lc (render lc st) = render lc st"
proof -
  let ?cmp = "compareTeachers lc (feedbackData st) (sortBy st)"
  have idem: "js_sort ?cmp (js_sort ?cmp xs) = js_sort ?cmp xs" for xs
  proof (cases "sortBy st = ''rating''")
    case True
    show ?thesis
      by (rule js_sort_idempotent [where key = "\<lambda>t. - ratingValue (feedbackData st) (t_id t)"])
        (simp add: True compareTeachers_rating)
  next
    case nr: False
    show ?thesis
    proof (cases "sortBy st = ''feedbacks''")
      case True
      show ?thesis
        by (rule js_sort_idempotent
              [where key = "\<lambda>t. - getFeedbackCount (feedbackData st) (t_id t)"])
          (simp add: True compareTeachers_feedbacks)
    next
      case False
      show ?thesis
        by (rule js_sort_idempotent [where key = "\<lambda>t. ckey (t_name t)"])
          (simp add: compareTeachers_name [OF assms nr False])
    qed
  qed
  show ?thesis
    by (simp add: render_def filteredAndSortedTeachers_def Let_def idem)
qed

lemma codeUnitCompare_le: "(codeUnitCompare s t \<le> 0) = (s \<le> t)"
  by (induction s t rule: codeUnitCompare.induct)
    (auto simp: less_char_def of_char_eq_iff)

lemma filteredAndSortedTeachers_codeUnit:
  "fst (filteredAndSortedTeachers codeUnitCompare st) = rosterPipeline_spec (\<lambda>s. s) st"
  by (rule filteredAndSortedTeachers_pipeline) (simp add: codeUnitCompare_le)

text \<open>
  Claim C4. By \<open>filteredAndSortedTeachers_pipeline\<close> the returned list is the pipeline of
  the claim applied to the \<open>teachers\<close> array as it stands when the list is computed. That
  array does not stay the seeded roster: by \<open>filteredAndSortedTeachers_array\<close> a call
  without a filter leaves it sorted, and the next render starts from that order. The first
  render sorts the array by name. When the sort order is then changed to the feedback
  count and no feedback is stored, all keys are equal, and the list comes out in the order
  3, 1, 5, 4, 6, 2 that the sort by name left behind. The pipeline of the claim, applied to
  the original roster, keeps the order 1, 2, 3, 4, 5, 6.
\<close>

theorem ties_follow_previous_sort:
  "map t_id (teachers initialState) = [1, 2, 3, 4, 5, 6]
   \<and> map t_id (teachers (render codeUnitCompare initialState)) = [3, 1, 5, 4, 6, 2]
   \<and> sortBy afterSortChange = ''feedbacks''
   \<and> filterDepartment afterSortChange = ''all''
   \<and> searchQuery afterSortChange = []
   \<and> map (\<lambda>t. getFeedbackCount (feedbackData afterSortChange) (t_id t)) sampleTeachers
       = [0, 0, 0, 0, 0, 0]
   \<and> map t_id (fst (filteredAndSortedTeachers codeUnitCompare afterSortChange))
       = [3, 1, 5, 4, 6, 2]
   \<and> map t_id (rosterPipeline_spec (\<lambda>s. s) (afterSortChange\<lparr>teachers := sampleTeachers\<rparr>))
       = [1, 2, 3, 4, 5, 6]"
  by code_simp

theorem ties_follow_previous_sort_witness:
  "map t_id (fst (filteredAndSortedTeachers codeUnitCompare afterSortChange))
     \<noteq> map t_id (rosterPipeline_spec (\<lambda>s. s) (afterSortChange\<lparr>teachers := sampleTeachers\<rparr>))"
  using ties_follow_previous_sort by simp

end
